theory Spec2Isabelle
  imports Main "HOL-Library.Sublist"
begin

section \<open>Text helpers\<close>

text \<open>
  Python strings are modelled as \<^typ>\<open>string\<close> holding ASCII text. \<open>lower\<close> is
  \<^verbatim>\<open>str.lower()\<close>, \<open>strip\<close> is \<^verbatim>\<open>str.strip()\<close>, \<open>isalnum\<close> is \<^verbatim>\<open>str.isalnum()\<close>
  and \<open>icontains\<close> is the ORM lookup \<^verbatim>\<open>field__icontains\<close> (case-insensitive
  substring).
\<close>

definition lower_char :: "char \<Rightarrow> char" where
  "lower_char c =
     (let n = (of_char c :: nat) in if 65 \<le> n \<and> n \<le> 90 then char_of (n + 32) else c)"

definition lower :: "string \<Rightarrow> string" where
  "lower s = map lower_char s"

definition is_space :: "char \<Rightarrow> bool" where
  "is_space c = (let n = (of_char c :: nat) in n = 32 \<or> (9 \<le> n \<and> n \<le> 13) \<or> (28 \<le> n \<and> n \<le> 31))"

definition strip :: "string \<Rightarrow> string" where
  "strip s = rev (dropWhile is_space (rev (dropWhile is_space s)))"

definition is_alnum_char :: "char \<Rightarrow> bool" where
  "is_alnum_char c =
     (let n = (of_char c :: nat)
      in (48 \<le> n \<and> n \<le> 57) \<or> (65 \<le> n \<and> n \<le> 90) \<or> (97 \<le> n \<and> n \<le> 122))"

definition isalnum :: "string \<Rightarrow> bool" where
  "isalnum s = (s \<noteq> [] \<and> list_all is_alnum_char s)"

definition quoted :: "string \<Rightarrow> string" where
  "quoted s = CHR 0x27 # s @ [CHR 0x27]"

definition icontains :: "string \<Rightarrow> string \<Rightarrow> bool" where
  "icontains s sub = sublist (lower sub) (lower s)"

section \<open>Data model\<close>

text \<open>
  \<^verbatim>\<open>accounts/models.py\<close> and \<^verbatim>\<open>tasks/models.py\<close>. Primary keys are natural numbers;
  a foreign key holds the key of the row it points to, and two model instances are
  equal when their keys are. The two timestamp columns play no part in any decision
  of the views and are left out.
\<close>

record user =
  user_id :: nat
  email :: string
  username :: string
  password :: string
  first_name :: string
  last_name :: string
  role :: string
  is_active :: bool

record task =
  task_id :: nat
  title :: string
  description :: "string option"
  status :: string
  priority :: string
  due_date :: "string option"
  owner :: nat

definition ROLE_CHOICES :: "(string \<times> string) list" where
  "ROLE_CHOICES = [(''user'', ''User''), (''admin'', ''Admin'')]"

definition STATUS_CHOICES :: "(string \<times> string) list" where
  "STATUS_CHOICES =
     [(''pending'', ''Pending''), (''in_progress'', ''In Progress''),
      (''completed'', ''Completed''), (''cancelled'', ''Cancelled'')]"

definition PRIORITY_CHOICES :: "(string \<times> string) list" where
  "PRIORITY_CHOICES = [(''low'', ''Low''), (''medium'', ''Medium''), (''high'', ''High'')]"

text \<open>The key a new row gets: larger than every key in use.\<close>

definition fresh_id :: "nat list \<Rightarrow> nat" where
  "fresh_id ids = Suc (fold max ids 0)"

section \<open>Requests, responses and the external collaborators\<close>

text \<open>
  \<open>data\<close> is \<^verbatim>\<open>request.data\<close> or \<^verbatim>\<open>request.query_params\<close>: the submitted fields by
  name. \<open>errors\<close> is \<^verbatim>\<open>serializer.errors\<close>: the messages of each rejected field.
  A \<open>failure\<close> is an error response: \<open>NotFound\<close> (404) and \<open>PermissionDenied\<close> (403)
  are raised by the generic views, \<open>ValidationError\<close> (400) by
  \<^verbatim>\<open>is_valid(raise_exception=True)\<close>, and \<open>BadRequest\<close> is the 400 response the
  repository's views build by hand, with its message and its \<^verbatim>\<open>errors\<close> entry.
  \<open>IntegrityError\<close> is the database refusing a row that breaks a unique column: no
  view catches it, so it surfaces as a generic server error (500).
\<close>

type_synonym data = "string \<rightharpoonup> string"

type_synonym errors = "(string \<times> string list) list"

text \<open>
  \<open>truthy\<close> is the truth value Python gives the result of \<^verbatim>\<open>d.get(key)\<close>: true when
  the key is present with a value that is not empty. \<open>or_empty\<close> is
  \<^verbatim>\<open>d.get(key, '')\<close>; it is also used to read a key that is known to be present.
\<close>

definition truthy :: "string option \<Rightarrow> bool" where
  "truthy p = (case p of None \<Rightarrow> False | Some v \<Rightarrow> v \<noteq> [])"

definition or_empty :: "string option \<Rightarrow> string" where
  "or_empty p = (case p of None \<Rightarrow> [] | Some v \<Rightarrow> v)"

datatype failure =
    NotFound
  | PermissionDenied string
  | ValidationError errors
  | BadRequest string errors
  | IntegrityError

text \<open>
  What the code calls but the repository does not define: the validators the framework
  attaches to a declared field from its type (format, length), by field name;
  Django's \<^verbatim>\<open>validate_password\<close> (the messages it raises, none when the password
  passes); the password hasher; the boolean field's parser; and the decoding of a
  refresh token (signature, expiry and token type), which yields the token's
  identifier \<^verbatim>\<open>jti\<close>.
\<close>

record framework =
  field_validators :: "string \<Rightarrow> string \<Rightarrow> string list"
  password_validation :: "string \<Rightarrow> string list"
  make_password :: "string \<Rightarrow> string"
  to_boolean :: "string \<Rightarrow> bool option"
  decode_token :: "string \<rightharpoonup> nat"

subsection \<open>Serializer fields\<close>

text \<open>
  A serializer runs every writable field it declares: a field missing from the data
  is an error when required and skipped otherwise; a present value goes through the
  field's own validators and then through the serializer's \<^verbatim>\<open>validate_<field>\<close>
  hook. A hook that raises \<^verbatim>\<open>serializers.ValidationError(msg)\<close> is \<open>Inl [msg]\<close>.
  Fields that are read-only, or not declared at all, are never read from the data.
\<close>

definition run_field ::
  "(string \<Rightarrow> string list) \<Rightarrow> (string \<Rightarrow> string list + 'a) \<Rightarrow> string \<Rightarrow> string list + 'a" where
  "run_field validators hook v = (case validators v of [] \<Rightarrow> hook v | m # ms \<Rightarrow> Inl (m # ms))"

text \<open>
  A character field (also the email field) first strips the submitted text of
  surrounding whitespace. What is left empty is refused unless the field allows a
  blank value; otherwise the stripped text goes through the validators and the hook.
\<close>

definition char_field ::
  "bool \<Rightarrow> (string \<Rightarrow> string list) \<Rightarrow> (string \<Rightarrow> string list + string)
     \<Rightarrow> string \<Rightarrow> string list + string" where
  "char_field allow_blank validators hook raw =
     (let v = strip raw in
      if v = [] then (if allow_blank then hook [] else Inl [''This field may not be blank.''])
      else run_field validators hook v)"

definition field_value ::
  "bool \<Rightarrow> data \<Rightarrow> string \<Rightarrow> (string \<Rightarrow> string list + 'a) \<Rightarrow> (string list + 'a) option" where
  "field_value required d name run =
     (case d name of
        None \<Rightarrow> if required then Some (Inl [''This field is required.'']) else None
      | Some v \<Rightarrow> Some (run v))"

definition field_error :: "string \<Rightarrow> (string list + 'a) option \<Rightarrow> errors" where
  "field_error name r = (case r of Some (Inl msgs) \<Rightarrow> [(name, msgs)] | _ \<Rightarrow> [])"

definition field_valid :: "(string list + 'a) option \<Rightarrow> 'a option" where
  "field_valid r = (case r of Some (Inr v) \<Rightarrow> Some v | _ \<Rightarrow> None)"

definition choice_field :: "(string \<times> string) list \<Rightarrow> string \<Rightarrow> string list" where
  "choice_field choices v =
     (if v \<in> set (map fst choices) then []
      else [CHR 0x22 # v @ CHR 0x22 # '' is not a valid choice.''])"

definition unique_validator :: "string list \<Rightarrow> string \<Rightarrow> string list" where
  "unique_validator existing v = (if v \<in> set existing then [''This field must be unique.''] else [])"

section \<open>Tasks: serializers\<close>

text \<open>\<^verbatim>\<open>tasks/serializers.py\<close>: \<^verbatim>\<open>validate_title\<close> of both task serializers.\<close>

definition validate_title :: "string \<Rightarrow> string list + string" where
  "validate_title v =
     (if length (strip v) < 3 then Inl [''Title must be at least 3 characters long.'']
      else Inr (strip v))"

text \<open>
  \<^verbatim>\<open>TaskSerializer.validate_status\<close>. \<^verbatim>\<open>self.instance\<close> is the task being updated,
  and \<open>None\<close> when the serializer creates. \<open>dict_get\<close> is \<^verbatim>\<open>dict.get(key, default)\<close>.
\<close>

definition dict_get :: "('k \<times> 'v) list \<Rightarrow> 'k \<Rightarrow> 'v \<Rightarrow> 'v" where
  "dict_get d k dflt = (case map_of d k of None \<Rightarrow> dflt | Some v \<Rightarrow> v)"

definition allowed_transitions :: "(string \<times> string list) list" where
  "allowed_transitions =
     [(''pending'', [''in_progress'', ''cancelled'']),
      (''in_progress'', [''completed'', ''pending'', ''cancelled'']),
      (''completed'', [''pending'']),
      (''cancelled'', [''pending''])]"

definition validate_status :: "task option \<Rightarrow> string \<Rightarrow> string list + string" where
  "validate_status instance v =
     (case instance of
        None \<Rightarrow> Inr v
      | Some inst \<Rightarrow>
          (let current_status = status inst in
           if v \<noteq> current_status \<and> v \<notin> set (dict_get allowed_transitions current_status [])
           then Inl [''Cannot transition from '' @ quoted current_status @ '' to '' @ quoted v @ ''.'']
           else Inr v))"


text \<open>
  The validated data of \<^verbatim>\<open>TaskSerializer\<close> and \<^verbatim>\<open>TaskCreateSerializer\<close>: the value
  of each field that was submitted and accepted.
\<close>

record task_data =
  vd_title :: "string option"
  vd_description :: "string option"
  vd_status :: "string option"
  vd_priority :: "string option"
  vd_due_date :: "string option"

text \<open>
  \<^verbatim>\<open>TaskSerializer\<close>: \<^verbatim>\<open>id\<close>, \<^verbatim>\<open>owner\<close>, \<^verbatim>\<open>created_at\<close>, \<^verbatim>\<open>updated_at\<close> and the four
  derived fields are read-only; the writable fields are title (required by the
  model, so required unless the update is partial), description, status, priority
  and due_date (optional: the model gives them a default or allows null).
\<close>

definition TaskSerializer_is_valid ::
  "framework \<Rightarrow> bool \<Rightarrow> task option \<Rightarrow> data \<Rightarrow> errors + task_data" where
  "TaskSerializer_is_valid fw partial instance d =
     (let r_title = field_value (\<not> partial) d ''title''
            (char_field False (field_validators fw ''title'') validate_title);
          r_description = field_value False d ''description''
            (char_field True (field_validators fw ''description'') Inr);
          r_status = field_value False d ''status''
            (run_field (choice_field STATUS_CHOICES) (validate_status instance));
          r_priority = field_value False d ''priority''
            (run_field (choice_field PRIORITY_CHOICES) Inr);
          r_due_date = field_value False d ''due_date''
            (run_field (field_validators fw ''due_date'') Inr);
          errs = field_error ''title'' r_title @ field_error ''description'' r_description
            @ field_error ''status'' r_status @ field_error ''priority'' r_priority
            @ field_error ''due_date'' r_due_date
      in if errs = []
         then Inr \<lparr>vd_title = field_valid r_title, vd_description = field_valid r_description,
                  vd_status = field_valid r_status, vd_priority = field_valid r_priority,
                  vd_due_date = field_valid r_due_date\<rparr>
         else Inl errs)"

text \<open>\<^verbatim>\<open>ModelSerializer.update\<close>: every validated field is assigned to the instance.\<close>

definition TaskSerializer_update :: "task \<Rightarrow> task_data \<Rightarrow> task" where
  "TaskSerializer_update instance vd =
     instance
       \<lparr>title := (case vd_title vd of None \<Rightarrow> title instance | Some v \<Rightarrow> v),
        description := (case vd_description vd of None \<Rightarrow> description instance | Some v \<Rightarrow> Some v),
        status := (case vd_status vd of None \<Rightarrow> status instance | Some v \<Rightarrow> v),
        priority := (case vd_priority vd of None \<Rightarrow> priority instance | Some v \<Rightarrow> v),
        due_date := (case vd_due_date vd of None \<Rightarrow> due_date instance | Some v \<Rightarrow> Some v)\<rparr>"

text \<open>
  \<^verbatim>\<open>TaskCreateSerializer\<close> declares title, description, priority and due_date only.
  Its \<^verbatim>\<open>create\<close> sets the owner to the requesting user; the columns without a
  submitted value take the model's defaults (status \<^verbatim>\<open>pending\<close>, priority \<^verbatim>\<open>medium\<close>).
\<close>

definition TaskCreateSerializer_is_valid :: "framework \<Rightarrow> data \<Rightarrow> errors + task_data" where
  "TaskCreateSerializer_is_valid fw d =
     (let r_title = field_value True d ''title''
            (char_field False (field_validators fw ''title'') validate_title);
          r_description = field_value False d ''description''
            (char_field True (field_validators fw ''description'') Inr);
          r_priority = field_value False d ''priority''
            (run_field (choice_field PRIORITY_CHOICES) Inr);
          r_due_date = field_value False d ''due_date''
            (run_field (field_validators fw ''due_date'') Inr);
          errs = field_error ''title'' r_title @ field_error ''description'' r_description
            @ field_error ''priority'' r_priority @ field_error ''due_date'' r_due_date
      in if errs = []
         then Inr \<lparr>vd_title = field_valid r_title, vd_description = field_valid r_description,
                  vd_status = None, vd_priority = field_valid r_priority,
                  vd_due_date = field_valid r_due_date\<rparr>
         else Inl errs)"

definition TaskCreateSerializer_create :: "user \<Rightarrow> task list \<Rightarrow> task_data \<Rightarrow> task" where
  "TaskCreateSerializer_create request_user tasks vd =
     \<lparr>task_id = fresh_id (map task_id tasks),
      title = (case vd_title vd of None \<Rightarrow> [] | Some v \<Rightarrow> v),
      description = vd_description vd,
      status = ''pending'',
      priority = (case vd_priority vd of None \<Rightarrow> ''medium'' | Some v \<Rightarrow> v),
      due_date = vd_due_date vd,
      owner = user_id request_user\<rparr>"

section \<open>Access control\<close>

text \<open>
  \<^verbatim>\<open>accounts/permissions.py\<close>. The views below all require an authenticated caller
  (\<^verbatim>\<open>IsAuthenticated\<close>), so \<^verbatim>\<open>request.user\<close> is a \<open>user\<close> row. A task has an \<^verbatim>\<open>owner\<close>
  attribute, so \<^verbatim>\<open>IsOwnerOrAdmin\<close> takes its first \<^verbatim>\<open>hasattr\<close> branch.
\<close>

definition IsAdminUser_has_permission :: "user \<Rightarrow> bool" where
  "IsAdminUser_has_permission request_user = (role request_user = ''admin'')"

definition IsOwnerOrAdmin_has_object_permission :: "user \<Rightarrow> task \<Rightarrow> bool" where
  "IsOwnerOrAdmin_has_object_permission request_user obj =
     (if role request_user = ''admin'' then True else owner obj = user_id request_user)"

section \<open>Tasks: views\<close>

text \<open>
  \<^verbatim>\<open>tasks/views.py\<close>. The task table is a list in the model's default order (newest
  first).
\<close>

definition search_match :: "string \<Rightarrow> task \<Rightarrow> bool" where
  "search_match s t =
     (icontains (title t) s \<or> (case description t of None \<Rightarrow> False | Some dsc \<Rightarrow> icontains dsc s))"

definition TaskListCreateView_get_queryset :: "user \<Rightarrow> data \<Rightarrow> task list \<Rightarrow> task list" where
  "TaskListCreateView_get_queryset request_user query_params tasks =
     (let queryset = (if role request_user = ''admin'' then tasks
                      else filter (\<lambda>t. owner t = user_id request_user) tasks);
          status_filter = query_params ''status'';
          priority_filter = query_params ''priority'';
          search = query_params ''search'';
          queryset = (if truthy status_filter
                      then filter (\<lambda>t. status t = or_empty status_filter) queryset else queryset);
          queryset = (if truthy priority_filter
                      then filter (\<lambda>t. priority t = or_empty priority_filter) queryset else queryset);
          queryset = (if truthy search
                      then filter (search_match (or_empty search)) queryset else queryset)
      in queryset)"

definition TaskListCreateView_post ::
  "framework \<Rightarrow> user \<Rightarrow> task list \<Rightarrow> data \<Rightarrow> failure + task \<times> task list" where
  "TaskListCreateView_post fw request_user tasks d =
     (case TaskCreateSerializer_is_valid fw d of
        Inl errs \<Rightarrow> Inl (BadRequest ''Task creation failed'' errs)
      | Inr vd \<Rightarrow>
          (let t = TaskCreateSerializer_create request_user tasks vd in Inr (t, t # tasks)))"

definition TaskDetailView_get_queryset :: "user \<Rightarrow> task list \<Rightarrow> task list" where
  "TaskDetailView_get_queryset request_user tasks =
     (if role request_user = ''admin'' then tasks
      else filter (\<lambda>t. owner t = user_id request_user) tasks)"

text \<open>
  \<^verbatim>\<open>GenericAPIView.get_object\<close>, which the detail view inherits: the row with the
  requested key is looked up in \<^verbatim>\<open>get_queryset()\<close> (404 when it is not there), and
  the object permissions are checked on the row found (403 when one refuses).
\<close>

definition TaskDetailView_get_object :: "user \<Rightarrow> task list \<Rightarrow> nat \<Rightarrow> failure + task" where
  "TaskDetailView_get_object request_user tasks pk =
     (case find (\<lambda>t. task_id t = pk) (TaskDetailView_get_queryset request_user tasks) of
        None \<Rightarrow> Inl NotFound
      | Some obj \<Rightarrow>
          if IsOwnerOrAdmin_has_object_permission request_user obj then Inr obj
          else Inl (PermissionDenied ''You do not have permission to access this resource.''))"

definition TaskDetailView_get :: "user \<Rightarrow> task list \<Rightarrow> nat \<Rightarrow> failure + task" where
  "TaskDetailView_get request_user tasks pk = TaskDetailView_get_object request_user tasks pk"

definition save_task :: "task \<Rightarrow> task list \<Rightarrow> task list" where
  "save_task t tasks = map (\<lambda>x. if task_id x = task_id t then t else x) tasks"

definition TaskDetailView_update ::
  "framework \<Rightarrow> bool \<Rightarrow> user \<Rightarrow> task list \<Rightarrow> nat \<Rightarrow> data \<Rightarrow> failure + task \<times> task list" where
  "TaskDetailView_update fw partial request_user tasks pk d =
     (case TaskDetailView_get_object request_user tasks pk of
        Inl e \<Rightarrow> Inl e
      | Inr instance \<Rightarrow>
          (case TaskSerializer_is_valid fw partial (Some instance) d of
             Inl errs \<Rightarrow> Inl (ValidationError errs)
           | Inr vd \<Rightarrow>
               (let t = TaskSerializer_update instance vd in Inr (t, save_task t tasks))))"

definition TaskDetailView_put ::
  "framework \<Rightarrow> user \<Rightarrow> task list \<Rightarrow> nat \<Rightarrow> data \<Rightarrow> failure + task \<times> task list" where
  "TaskDetailView_put fw = TaskDetailView_update fw False"

definition TaskDetailView_patch ::
  "framework \<Rightarrow> user \<Rightarrow> task list \<Rightarrow> nat \<Rightarrow> data \<Rightarrow> failure + task \<times> task list" where
  "TaskDetailView_patch fw = TaskDetailView_update fw True"

definition TaskDetailView_delete :: "user \<Rightarrow> task list \<Rightarrow> nat \<Rightarrow> failure + task list" where
  "TaskDetailView_delete request_user tasks pk =
     (case TaskDetailView_get_object request_user tasks pk of
        Inl e \<Rightarrow> Inl e
      | Inr obj \<Rightarrow> Inr (filter (\<lambda>t. task_id t \<noteq> task_id obj) tasks))"

record stats =
  total_tasks :: nat
  pending :: nat
  in_progress :: nat
  completed :: nat
  cancelled :: nat

definition TaskStatsView_get :: "user \<Rightarrow> task list \<Rightarrow> stats" where
  "TaskStatsView_get request_user tasks =
     (let queryset = (if role request_user = ''admin'' then tasks
                      else filter (\<lambda>t. owner t = user_id request_user) tasks)
      in \<lparr>total_tasks = length queryset,
          pending = length (filter (\<lambda>t. status t = ''pending'') queryset),
          in_progress = length (filter (\<lambda>t. status t = ''in_progress'') queryset),
          completed = length (filter (\<lambda>t. status t = ''completed'') queryset),
          cancelled = length (filter (\<lambda>t. status t = ''cancelled'') queryset)\<rparr>)"

section \<open>Accounts: registration\<close>

text \<open>
  \<^verbatim>\<open>accounts/serializers.py\<close>, \<^verbatim>\<open>UserRegistrationSerializer\<close>. The user table is a
  list, newest first. The field hooks look the lower-cased value up with an exact
  match (\<^verbatim>\<open>filter(email=value.lower())\<close>) and return the lower-cased value.
\<close>

definition validate_email :: "user list \<Rightarrow> string \<Rightarrow> string list + string" where
  "validate_email users v =
     (if lower v \<in> set (map email users) then Inl [''A user with this email already exists.'']
      else Inr (lower v))"

definition validate_username :: "user list \<Rightarrow> string \<Rightarrow> string list + string" where
  "validate_username users v =
     (if lower v \<in> set (map username users) then Inl [''A user with this username already exists.'']
      else if \<not> isalnum v then Inl [''Username must be alphanumeric.'']
      else if length v < 3 then Inl [''Username must be at least 3 characters long.'']
      else Inr (lower v))"

definition validate_password :: "framework \<Rightarrow> string \<Rightarrow> string list + string" where
  "validate_password fw v =
     (case password_validation fw v of [] \<Rightarrow> Inr v | m # ms \<Rightarrow> Inl (m # ms))"

record registration_data =
  vd_email :: "string option"
  vd_username :: "string option"
  vd_password :: "string option"
  vd_password_confirm :: "string option"
  vd_first_name :: "string option"
  vd_last_name :: "string option"

definition validate :: "registration_data \<Rightarrow> errors + registration_data" where
  "validate attrs =
     (if vd_password attrs \<noteq> vd_password_confirm attrs
      then Inl [(''password_confirm'', [''Passwords do not match.''])]
      else Inr attrs)"

text \<open>
  The declared fields are id (read-only), email, username, password and
  password_confirm (required), first_name and last_name (optional). \<^verbatim>\<open>role\<close> is not a
  field of this serializer. The model declares email and username unique, so the
  serializer also gives each the framework's uniqueness validator, an exact match
  on the stripped value; \<^verbatim>\<open>validate\<close> runs once every field has passed.
\<close>

definition UserRegistrationSerializer_is_valid ::
  "framework \<Rightarrow> user list \<Rightarrow> data \<Rightarrow> errors + registration_data" where
  "UserRegistrationSerializer_is_valid fw users d =
     (let r_email = field_value True d ''email''
            (char_field False
               (\<lambda>v. field_validators fw ''email'' v @ unique_validator (map email users) v)
               (validate_email users));
          r_username = field_value True d ''username''
            (char_field False
               (\<lambda>v. field_validators fw ''username'' v @ unique_validator (map username users) v)
               (validate_username users));
          r_password = field_value True d ''password''
            (char_field False (field_validators fw ''password'') (validate_password fw));
          r_password_confirm = field_value True d ''password_confirm''
            (char_field False (field_validators fw ''password_confirm'') Inr);
          r_first_name = field_value False d ''first_name''
            (char_field True (field_validators fw ''first_name'') Inr);
          r_last_name = field_value False d ''last_name''
            (char_field True (field_validators fw ''last_name'') Inr);
          errs = field_error ''email'' r_email @ field_error ''username'' r_username
            @ field_error ''password'' r_password
            @ field_error ''password_confirm'' r_password_confirm
            @ field_error ''first_name'' r_first_name @ field_error ''last_name'' r_last_name
      in if errs = []
         then validate \<lparr>vd_email = field_valid r_email, vd_username = field_valid r_username,
                  vd_password = field_valid r_password,
                  vd_password_confirm = field_valid r_password_confirm,
                  vd_first_name = field_valid r_first_name,
                  vd_last_name = field_valid r_last_name\<rparr>
         else Inl errs)"

text \<open>
  \<^verbatim>\<open>UserRegistrationSerializer.create\<close> calls the manager's \<^verbatim>\<open>create_user\<close> with the
  validated email, username and password, the names (empty when absent) and
  \<^verbatim>\<open>role='user'\<close>. \<^verbatim>\<open>create_user\<close> hashes the password and inserts the row, active by
  default; the insert fails when the email or the username is already in its
  unique column.
\<close>

definition UserRegistrationSerializer_create ::
  "framework \<Rightarrow> user list \<Rightarrow> registration_data \<Rightarrow> failure + user" where
  "UserRegistrationSerializer_create fw users validated_data =
     (let u = \<lparr>user_id = fresh_id (map user_id users),
               email = or_empty (vd_email validated_data),
               username = or_empty (vd_username validated_data),
               password = make_password fw (or_empty (vd_password validated_data)),
               first_name = or_empty (vd_first_name validated_data),
               last_name = or_empty (vd_last_name validated_data),
               role = ''user'',
               is_active = True\<rparr>
      in if email u \<in> set (map email users) \<or> username u \<in> set (map username users)
         then Inl IntegrityError else Inr u)"

text \<open>\<^verbatim>\<open>accounts/views.py\<close>, \<^verbatim>\<open>UserRegistrationView.post\<close>: the created user and the new table.\<close>

definition UserRegistrationView_post ::
  "framework \<Rightarrow> user list \<Rightarrow> data \<Rightarrow> failure + user \<times> user list" where
  "UserRegistrationView_post fw users d =
     (case UserRegistrationSerializer_is_valid fw users d of
        Inl errs \<Rightarrow> Inl (BadRequest ''Registration failed'' errs)
      | Inr vd \<Rightarrow>
          (case UserRegistrationSerializer_create fw users vd of
             Inl e \<Rightarrow> Inl e
           | Inr u \<Rightarrow> Inr (u, u # users)))"

section \<open>Accounts: profile\<close>

text \<open>
  \<^verbatim>\<open>UserProfileSerializer\<close> and \<^verbatim>\<open>UserProfileView\<close>: id, email and role (and the
  timestamps) are read-only; username (required unless the update is partial),
  first_name and last_name are writable. The serializer has no hook of its own: the
  username is stored as submitted, stripped, after the field's validators and the
  uniqueness validator, which on an update compares with the other rows. The view
  updates the requesting user's own row.
\<close>

record profile_data =
  pf_username :: "string option"
  pf_first_name :: "string option"
  pf_last_name :: "string option"

definition UserProfileSerializer_is_valid ::
  "framework \<Rightarrow> bool \<Rightarrow> user list \<Rightarrow> user \<Rightarrow> data \<Rightarrow> errors + profile_data" where
  "UserProfileSerializer_is_valid fw partial users instance d =
     (let others = filter (\<lambda>x. user_id x \<noteq> user_id instance) users;
          r_username = field_value (\<not> partial) d ''username''
            (char_field False
               (\<lambda>v. field_validators fw ''username'' v @ unique_validator (map username others) v)
               Inr);
          r_first_name = field_value False d ''first_name''
            (char_field True (field_validators fw ''first_name'') Inr);
          r_last_name = field_value False d ''last_name''
            (char_field True (field_validators fw ''last_name'') Inr);
          errs = field_error ''username'' r_username @ field_error ''first_name'' r_first_name
            @ field_error ''last_name'' r_last_name
      in if errs = []
         then Inr \<lparr>pf_username = field_valid r_username, pf_first_name = field_valid r_first_name,
                  pf_last_name = field_valid r_last_name\<rparr>
         else Inl errs)"

definition UserProfileSerializer_update :: "user \<Rightarrow> profile_data \<Rightarrow> user" where
  "UserProfileSerializer_update instance vd =
     instance
       \<lparr>username := (case pf_username vd of None \<Rightarrow> username instance | Some v \<Rightarrow> v),
        first_name := (case pf_first_name vd of None \<Rightarrow> first_name instance | Some v \<Rightarrow> v),
        last_name := (case pf_last_name vd of None \<Rightarrow> last_name instance | Some v \<Rightarrow> v)\<rparr>"

definition UserProfileView_update ::
  "framework \<Rightarrow> bool \<Rightarrow> user \<Rightarrow> user list \<Rightarrow> data \<Rightarrow> failure + user \<times> user list" where
  "UserProfileView_update fw partial request_user users d =
     (case UserProfileSerializer_is_valid fw partial users request_user d of
        Inl errs \<Rightarrow> Inl (ValidationError errs)
      | Inr vd \<Rightarrow>
          (let u = UserProfileSerializer_update request_user vd
           in Inr (u, map (\<lambda>x. if user_id x = user_id u then u else x) users)))"

definition UserProfileView_patch ::
  "framework \<Rightarrow> user \<Rightarrow> user list \<Rightarrow> data \<Rightarrow> failure + user \<times> user list" where
  "UserProfileView_patch fw = UserProfileView_update fw True"

section \<open>Accounts: logout\<close>

text \<open>
  \<^verbatim>\<open>LogoutView.post\<close>. The blacklist is the list of the identifiers of the blacklisted
  tokens. The view answers any exception with the 400 response \<^verbatim>\<open>Invalid token\<close>. The
  result is the response and the blacklist after the call.
\<close>

text \<open>
  Modelled from the spec: the token library (\<^verbatim>\<open>rest_framework_simplejwt\<close>) is not part
  of the repository, so its \<^verbatim>\<open>RefreshToken(raw)\<close> and \<^verbatim>\<open>token.blacklist()\<close> are written
  from their contract. Section 3 has a blacklisted refresh token fail every later use
  (``blacklisting a refresh token invalidates future refresh requests using it''), and
  section 4.1 has a refresh fail on a token that is expired, malformed or blacklisted:
  the constructor decodes the token and verifies it, which with the blacklist in use
  includes refusing a token whose identifier is on the blacklist; it raises
  \<^verbatim>\<open>TokenError\<close>, here \<open>None\<close>. \<^verbatim>\<open>token.blacklist()\<close> records the identifier if it is
  not recorded yet.
\<close>

definition RefreshToken :: "framework \<Rightarrow> nat list \<Rightarrow> string \<Rightarrow> nat option" where
  "RefreshToken fw blacklist raw =
     (case decode_token fw raw of
        None \<Rightarrow> None
      | Some jti \<Rightarrow> if jti \<in> set blacklist then None else Some jti)"

definition token_blacklist :: "nat \<Rightarrow> nat list \<Rightarrow> nat list" where
  "token_blacklist jti blacklist = (if jti \<in> set blacklist then blacklist else jti # blacklist)"

definition LogoutView_post ::
  "framework \<Rightarrow> nat list \<Rightarrow> data \<Rightarrow> (failure + string) \<times> nat list" where
  "LogoutView_post fw blacklist d =
     (let refresh_token = d ''refresh'' in
      if \<not> truthy refresh_token
      then (Inl (BadRequest ''Refresh token is required'' []), blacklist)
      else (case RefreshToken fw blacklist (or_empty refresh_token) of
              None \<Rightarrow> (Inl (BadRequest ''Invalid token'' []), blacklist)
            | Some jti \<Rightarrow> (Inr ''Successfully logged out'', token_blacklist jti blacklist)))"

section \<open>Accounts: user administration\<close>

text \<open>
  \<^verbatim>\<open>AdminUserDetailView\<close>: the permission classes are checked before the handler
  runs; \<^verbatim>\<open>get_object\<close> looks the key up among all users. Deleting a user removes the
  row and, by the cascade the task model declares on its owner, the user's tasks.
  \<open>delete\<close> returns its response with the two tables as they are after the call.
\<close>

definition AdminUserDetailView_get_object :: "user \<Rightarrow> user list \<Rightarrow> nat \<Rightarrow> failure + user" where
  "AdminUserDetailView_get_object request_user users pk =
     (if \<not> IsAdminUser_has_permission request_user
      then Inl (PermissionDenied ''You must be an admin to perform this action.'')
      else (case find (\<lambda>u. user_id u = pk) users of None \<Rightarrow> Inl NotFound | Some u \<Rightarrow> Inr u))"

definition AdminUserDetailView_delete ::
  "user \<Rightarrow> user list \<Rightarrow> task list \<Rightarrow> nat \<Rightarrow> (failure + unit) \<times> user list \<times> task list" where
  "AdminUserDetailView_delete request_user users tasks pk =
     (case AdminUserDetailView_get_object request_user users pk of
        Inl e \<Rightarrow> (Inl e, users, tasks)
      | Inr u \<Rightarrow>
          if user_id u = user_id request_user
          then (Inl (BadRequest ''You cannot delete your own account'' []), users, tasks)
          else (Inr (),
                filter (\<lambda>x. user_id x \<noteq> user_id u) users,
                filter (\<lambda>t. owner t \<noteq> user_id u) tasks))"

text \<open>
  \<^verbatim>\<open>AdminUserUpdateSerializer\<close>: id, email and username are read-only; first_name,
  last_name, role and is_active are writable and none is required.
\<close>

record admin_user_data =
  au_first_name :: "string option"
  au_last_name :: "string option"
  au_role :: "string option"
  au_is_active :: "bool option"

definition boolean_field :: "framework \<Rightarrow> string \<Rightarrow> string list + bool" where
  "boolean_field fw v =
     (case to_boolean fw v of None \<Rightarrow> Inl [''Must be a valid boolean.''] | Some b \<Rightarrow> Inr b)"

definition AdminUserUpdateSerializer_is_valid ::
  "framework \<Rightarrow> data \<Rightarrow> errors + admin_user_data" where
  "AdminUserUpdateSerializer_is_valid fw d =
     (let r_first_name = field_value False d ''first_name''
            (char_field True (field_validators fw ''first_name'') Inr);
          r_last_name = field_value False d ''last_name''
            (char_field True (field_validators fw ''last_name'') Inr);
          r_role = field_value False d ''role'' (run_field (choice_field ROLE_CHOICES) Inr);
          r_is_active = field_value False d ''is_active'' (boolean_field fw);
          errs = field_error ''first_name'' r_first_name @ field_error ''last_name'' r_last_name
            @ field_error ''role'' r_role @ field_error ''is_active'' r_is_active
      in if errs = []
         then Inr \<lparr>au_first_name = field_valid r_first_name, au_last_name = field_valid r_last_name,
                  au_role = field_valid r_role, au_is_active = field_valid r_is_active\<rparr>
         else Inl errs)"

definition AdminUserUpdateSerializer_update :: "user \<Rightarrow> admin_user_data \<Rightarrow> user" where
  "AdminUserUpdateSerializer_update instance vd =
     instance
       \<lparr>first_name := (case au_first_name vd of None \<Rightarrow> first_name instance | Some v \<Rightarrow> v),
        last_name := (case au_last_name vd of None \<Rightarrow> last_name instance | Some v \<Rightarrow> v),
        role := (case au_role vd of None \<Rightarrow> role instance | Some v \<Rightarrow> v),
        is_active := (case au_is_active vd of None \<Rightarrow> is_active instance | Some v \<Rightarrow> v)\<rparr>"

definition save_user :: "user \<Rightarrow> user list \<Rightarrow> user list" where
  "save_user u users = map (\<lambda>x. if user_id x = user_id u then u else x) users"

text \<open>
  \<^verbatim>\<open>put\<close> and \<^verbatim>\<open>patch\<close> of the generic view. No field of the serializer is required,
  so the full and the partial update validate alike.
\<close>

definition AdminUserDetailView_update ::
  "framework \<Rightarrow> bool \<Rightarrow> user \<Rightarrow> user list \<Rightarrow> nat \<Rightarrow> data \<Rightarrow> failure + user \<times> user list" where
  "AdminUserDetailView_update fw partial request_user users pk d =
     (case AdminUserDetailView_get_object request_user users pk of
        Inl e \<Rightarrow> Inl e
      | Inr instance \<Rightarrow>
          (case AdminUserUpdateSerializer_is_valid fw d of
             Inl errs \<Rightarrow> Inl (ValidationError errs)
           | Inr vd \<Rightarrow>
               (let u = AdminUserUpdateSerializer_update instance vd in Inr (u, save_user u users))))"

definition AdminUserDetailView_put ::
  "framework \<Rightarrow> user \<Rightarrow> user list \<Rightarrow> nat \<Rightarrow> data \<Rightarrow> failure + user \<times> user list" where
  "AdminUserDetailView_put fw = AdminUserDetailView_update fw False"

definition AdminUserDetailView_patch ::
  "framework \<Rightarrow> user \<Rightarrow> user list \<Rightarrow> nat \<Rightarrow> data \<Rightarrow> failure + user \<times> user list" where
  "AdminUserDetailView_patch fw = AdminUserDetailView_update fw True"

section \<open>The specification's vocabulary\<close>

text \<open>
  Section 4.4 of the specification, in its own words: the tasks a caller may see are
  all tasks if the caller is an administrator, else only the tasks the caller owns.
\<close>

definition visible_to :: "user \<Rightarrow> task \<Rightarrow> bool" where
  "visible_to caller t = (role caller = ''admin'' \<or> owner t = user_id caller)"




section \<open>Example data\<close>

text \<open>
  A framework whose field validators accept every value, whose password policy asks
  for eight characters that are not all digits, and which knows two refresh tokens;
  three users (the third an administrator) and a small task table.
\<close>

definition example_framework :: framework where
  "example_framework =
     \<lparr>field_validators = (\<lambda>name v. []),
      password_validation = (\<lambda>p.
         (if length p < 8 then [''This password is too short.''] else [])
         @ (if list_all (\<lambda>c. c \<in> set ''0123456789'') p then [''This password is entirely numeric.''] else [])),
      make_password = (\<lambda>p. ''hashed:'' @ p),
      to_boolean = (\<lambda>v. if v \<in> set [''true'', ''True'', ''1''] then Some True
                          else if v \<in> set [''false'', ''False'', ''0''] then Some False else None),
      decode_token = map_of [(''refresh-1'', 1), (''refresh-2'', 2)]\<rparr>"

definition alice :: user where
  "alice = \<lparr>user_id = 1, email = ''alice@example.com'', username = ''alice'', password = ''hashed:a'',
             first_name = ''Alice'', last_name = ''A'', role = ''user'', is_active = True\<rparr>"

definition bob :: user where
  "bob = \<lparr>user_id = 2, email = ''bob@example.com'', username = ''Bob1'', password = ''hashed:b'',
           first_name = ''Bob'', last_name = ''B'', role = ''user'', is_active = True\<rparr>"

definition root :: user where
  "root = \<lparr>user_id = 3, email = ''root@example.com'', username = ''root'', password = ''hashed:r'',
            first_name = ''Root'', last_name = ''R'', role = ''admin'', is_active = True\<rparr>"

definition example_task :: "nat \<Rightarrow> string \<Rightarrow> string \<Rightarrow> nat \<Rightarrow> task" where
  "example_task k ttl st own =
     \<lparr>task_id = k, title = ttl, description = None, status = st, priority = ''medium'',
      due_date = None, owner = own\<rparr>"

definition example_tasks :: "task list" where
  "example_tasks =
     [example_task 6 ''Write report'' ''pending'' 1,
      (example_task 5 ''Book venue'' ''in_progress'' 2)\<lparr>description := Some ''Paper invitations''\<rparr>,
      example_task 4 ''Call plumber'' ''pending'' 1,
      example_task 3 ''Pay invoice'' ''completed'' 1,
      example_task 2 ''Renew domain'' ''cancelled'' 2,
      example_task 1 ''Order paper'' ''pending'' 1]"

definition carol_registration :: data where
  "carol_registration =
     map_of [(''email'', ''Carol@Example.com''), (''username'', ''Carol7''),
             (''password'', ''s3cretpass''), (''password_confirm'', ''s3cretpass''),
             (''role'', ''admin'')]"

definition carol :: user where
  "carol = \<lparr>user_id = 2, email = ''carol@example.com'', username = ''carol7'',
             password = ''hashed:s3cretpass'', first_name = [], last_name = [],
             role = ''user'', is_active = True\<rparr>"

definition bob_update :: data where
  "bob_update =
     map_of [(''id'', ''9''), (''email'', ''mallory@example.com''), (''username'', ''mallory''),
             (''first_name'', ''Robert''), (''role'', ''admin''), (''is_active'', ''false'')]"

definition bob_updated :: user where
  "bob_updated = bob\<lparr>first_name := ''Robert'', role := ''admin'', is_active := False\<rparr>"

definition task6_update :: data where
  "task6_update =
     map_of [(''owner'', ''2''), (''title'', ''  Write the report ''), (''status'', ''in_progress'')]"

definition task6_updated :: task where
  "task6_updated =
     (example_task 6 ''Write the report'' ''in_progress'' 1)"

definition task7_create :: data where
  "task7_create = map_of [(''owner'', ''1''), (''title'', ''File taxes''), (''status'', ''completed'')]"

definition empty_status_query :: data where
  "empty_status_query = map_of [(''status'', [])]"

definition paper_query :: data where
  "paper_query = map_of [(''status'', ''pending''), (''priority'', ''medium''), (''search'', ''PAPER'')]"

definition bob1_registration :: data where
  "bob1_registration =
     map_of [(''email'', ''robert@example.com''), (''username'', ''bob1''),
             (''password'', ''s3cretpass''), (''password_confirm'', ''s3cretpass'')]"

definition robert :: user where
  "robert = \<lparr>user_id = 3, email = ''robert@example.com'', username = ''bob1'',
              password = ''hashed:s3cretpass'', first_name = [], last_name = [],
              role = ''user'', is_active = True\<rparr>"

definition logout_request :: data where
  "logout_request = map_of [(''refresh'', ''refresh-1'')]"

definition bob_before :: user where
  "bob_before = bob\<lparr>username := ''bob''\<rparr>"


section \<open>Serializer fields: basic facts\<close>

lemma field_error_Nil_iff: "field_error name r = [] \<longleftrightarrow> (\<forall>m. r \<noteq> Some (Inl m))"
  by (auto simp: field_error_def split: option.splits sum.splits)

lemma field_error_names:
  "set (map fst (field_error name r)) = (if (\<exists>m. r = Some (Inl m)) then {name} else {})"
  by (auto simp: field_error_def split: option.splits sum.splits)


lemma validate_status_cases:
  "validate_status instance new = Inr new \<or> (\<exists>m. validate_status instance new = Inl m)"
  by (auto simp: validate_status_def Let_def split: option.splits)




section \<open>Registration\<close>

lemma create_role:
  "UserRegistrationSerializer_create fw users vd = Inr u \<Longrightarrow> role u = ''user''"
  by (auto simp: UserRegistrationSerializer_create_def Let_def split: if_splits)

lemma is_valid_ignores_role:
  "UserRegistrationSerializer_is_valid fw users (d(''role'' := r))
     = UserRegistrationSerializer_is_valid fw users d"
  by (simp add: UserRegistrationSerializer_is_valid_def field_value_def)

text \<open>
  C2. Registration does not read a role from the request: with any role value put in
  the data, or the key removed, the outcome is the same; and whenever registration
  succeeds the created user, which is added to the user table, has the role \<open>user\<close>.
\<close>

theorem registration_role_user:
  "UserRegistrationView_post fw users (d(''role'' := r)) = UserRegistrationView_post fw users d
   \<and> (UserRegistrationView_post fw users d = Inr (u, users') \<longrightarrow>
        role u = ''user'' \<and> users' = u # users)"
  by (auto simp: UserRegistrationView_post_def is_valid_ignores_role create_role split: sum.splits)

theorem registration_role_user_witness:
  "carol_registration ''role'' = Some ''admin''
   \<and> UserRegistrationView_post example_framework [alice] carol_registration = Inr (carol, [carol, alice])
   \<and> role carol = ''user''"
proof -
  have e: "UserRegistrationView_post example_framework [alice] carol_registration
             = Inr (carol, [carol, alice])"
    by code_simp
  have r: "carol_registration ''role'' = Some ''admin''"
    by (simp add: carol_registration_def)
  from registration_role_user [of example_framework "[alice]" carol_registration "Some ''admin''"
      carol "[carol, alice]"] e r
  show ?thesis by simp
qed

section \<open>Tables and role scoping: basic facts\<close>

lemma distinct_ids_tasks: "distinct (map task_id tasks) \<Longrightarrow> distinct tasks"
  by (rule distinct_map [THEN iffD1, THEN conjunct1])

lemma count_card: "distinct xs \<Longrightarrow> length (filter P xs) = card {x \<in> set xs. P x}"
proof -
  assume d: "distinct xs"
  then have "distinct (filter P xs)" by simp
  then have "card (set (filter P xs)) = length (filter P xs)" by (rule distinct_card)
  then show ?thesis by simp
qed

lemma role_queryset:
  "(if role u = ''admin'' then tasks else filter (\<lambda>t. owner t = user_id u) tasks)
     = filter (visible_to u) tasks"
  by (auto simp: visible_to_def intro: filter_cong)

lemma example_tasks_distinct: "distinct (map task_id example_tasks)"
  by (simp add: example_tasks_def example_task_def)

section \<open>Task statistics\<close>

lemma stats_counts:
  assumes "distinct (map task_id tasks)"
  shows "TaskStatsView_get caller tasks =
     \<lparr>total_tasks = card {t \<in> set tasks. visible_to caller t},
      pending = card {t \<in> set tasks. visible_to caller t \<and> status t = ''pending''},
      in_progress = card {t \<in> set tasks. visible_to caller t \<and> status t = ''in_progress''},
      completed = card {t \<in> set tasks. visible_to caller t \<and> status t = ''completed''},
      cancelled = card {t \<in> set tasks. visible_to caller t \<and> status t = ''cancelled''}\<rparr>"
proof -
  have d: "distinct tasks" using assms by (rule distinct_ids_tasks)
  have f: "length (filter (\<lambda>t. visible_to caller t \<and> P t) tasks)
             = card {t \<in> set tasks. visible_to caller t \<and> P t}" for P
    using d by (rule count_card)
  have t: "length (filter (visible_to caller) tasks) = card {t \<in> set tasks. visible_to caller t}"
    using d by (rule count_card)
  show ?thesis
    unfolding TaskStatsView_get_def Let_def role_queryset by (simp add: f t)
qed

lemma three_pending_one_completed:
  assumes own: "\<forall>t\<in>set tasks. visible_to caller t \<longrightarrow> status t = ''pending'' \<or> status t = ''completed''"
    and p: "card {t \<in> set tasks. visible_to caller t \<and> status t = ''pending''} = 3"
    and c: "card {t \<in> set tasks. visible_to caller t \<and> status t = ''completed''} = 1"
  shows "card {t \<in> set tasks. visible_to caller t} = 4"
    and "card {t \<in> set tasks. visible_to caller t \<and> status t = ''in_progress''} = 0"
    and "card {t \<in> set tasks. visible_to caller t \<and> status t = ''cancelled''} = 0"
proof -
  let ?P = "{t \<in> set tasks. visible_to caller t \<and> status t = ''pending''}"
  let ?C = "{t \<in> set tasks. visible_to caller t \<and> status t = ''completed''}"
  have u: "{t \<in> set tasks. visible_to caller t} = ?P \<union> ?C" using own by auto
  have dj: "?P \<inter> ?C = {}" by auto
  have "card (?P \<union> ?C) = card ?P + card ?C"
    by (rule card_Un_disjoint) (simp_all add: dj)
  with u p c show "card {t \<in> set tasks. visible_to caller t} = 4" by simp
  have "{t \<in> set tasks. visible_to caller t \<and> status t = ''in_progress''} = {}"
    using own by auto
  then show "card {t \<in> set tasks. visible_to caller t \<and> status t = ''in_progress''} = 0"
    by simp
  have "{t \<in> set tasks. visible_to caller t \<and> status t = ''cancelled''} = {}"
    using own by auto
  then show "card {t \<in> set tasks. visible_to caller t \<and> status t = ''cancelled''} = 0"
    by simp
qed

text \<open>
  C7. In a task table with distinct keys, the statistics of a caller are the numbers
  of tasks visible to the caller (all tasks for an administrator, the caller's own
  otherwise): \<open>total\<close> counts them all and each named count those with exactly that
  status. In particular a caller whose visible tasks are three pending ones and one
  completed one gets total 4, pending 3, in_progress 0, completed 1, cancelled 0.
\<close>

theorem task_stats_counts:
  assumes "distinct (map task_id tasks)"
  shows "TaskStatsView_get caller tasks =
     \<lparr>total_tasks = card {t \<in> set tasks. visible_to caller t},
      pending = card {t \<in> set tasks. visible_to caller t \<and> status t = ''pending''},
      in_progress = card {t \<in> set tasks. visible_to caller t \<and> status t = ''in_progress''},
      completed = card {t \<in> set tasks. visible_to caller t \<and> status t = ''completed''},
      cancelled = card {t \<in> set tasks. visible_to caller t \<and> status t = ''cancelled''}\<rparr>
    \<and> ((\<forall>t\<in>set tasks. visible_to caller t \<longrightarrow> status t = ''pending'' \<or> status t = ''completed'')
        \<and> card {t \<in> set tasks. visible_to caller t \<and> status t = ''pending''} = 3
        \<and> card {t \<in> set tasks. visible_to caller t \<and> status t = ''completed''} = 1
       \<longrightarrow> TaskStatsView_get caller tasks =
             \<lparr>total_tasks = 4, pending = 3, in_progress = 0, completed = 1, cancelled = 0\<rparr>)"
  using stats_counts [OF assms, of caller] three_pending_one_completed [of tasks caller] by simp

theorem task_stats_counts_witness:
  "distinct (map task_id example_tasks)
   \<and> card {t \<in> set example_tasks. visible_to alice t \<and> status t = ''pending''} = 3
   \<and> card {t \<in> set example_tasks. visible_to alice t \<and> status t = ''completed''} = 1
   \<and> TaskStatsView_get alice example_tasks =
       \<lparr>total_tasks = 4, pending = 3, in_progress = 0, completed = 1, cancelled = 0\<rparr>"
proof -
  have d: "distinct example_tasks"
    using example_tasks_distinct by (rule distinct_ids_tasks)
  have own: "\<forall>t\<in>set example_tasks. visible_to alice t \<longrightarrow>
               status t = ''pending'' \<or> status t = ''completed''"
    by (simp add: example_tasks_def example_task_def visible_to_def alice_def)
  have p: "card {t \<in> set example_tasks. visible_to alice t \<and> status t = ''pending''} = 3"
    using count_card [OF d, of "\<lambda>t. visible_to alice t \<and> status t = ''pending''", symmetric]
    by (simp add: example_tasks_def example_task_def visible_to_def alice_def)
  have c: "card {t \<in> set example_tasks. visible_to alice t \<and> status t = ''completed''} = 1"
    using count_card [OF d, of "\<lambda>t. visible_to alice t \<and> status t = ''completed''", symmetric]
    by (simp add: example_tasks_def example_task_def visible_to_def alice_def)
  from task_stats_counts [OF example_tasks_distinct, of alice] own p c example_tasks_distinct
  show ?thesis by blast
qed

section \<open>Looking rows up by key\<close>

lemma find_by_key:
  assumes "distinct (map key xs)" and "x \<in> set xs"
  shows "find (\<lambda>y. key y = key x) xs = Some x"
  using assms by (induction xs) (auto simp: image_iff)

lemma find_Some_key: "find (\<lambda>y. key y = k) xs = Some x \<Longrightarrow> x \<in> set xs \<and> key x = k"
  by (induction xs) (auto split: if_splits)

section \<open>User administration\<close>

text \<open>
  C8. In a user table with distinct keys, an administrator's request to delete the
  administrator's own account is answered with the 400 response \<open>You cannot delete your
  own account\<close> and leaves both tables as they were; the request to delete any other
  user of the table succeeds, and afterwards the table holds every user but that one
  (and the task table every task but that user's).
\<close>

theorem admin_cannot_delete_self:
  assumes "role caller = ''admin''" and "distinct (map user_id users)"
  shows "(caller \<in> set users \<longrightarrow>
           AdminUserDetailView_delete caller users tasks (user_id caller)
             = (Inl (BadRequest ''You cannot delete your own account'' []), users, tasks))
       \<and> (target \<in> set users \<and> user_id target \<noteq> user_id caller \<longrightarrow>
           (\<exists>users' tasks'.
              AdminUserDetailView_delete caller users tasks (user_id target) = (Inr (), users', tasks')
              \<and> set users' = set users - {target}
              \<and> set tasks' = {t \<in> set tasks. owner t \<noteq> user_id target}))"
proof -
  have self: "AdminUserDetailView_delete caller users tasks (user_id caller)
             = (Inl (BadRequest ''You cannot delete your own account'' []), users, tasks)"
    if "caller \<in> set users"
    using assms that find_by_key [of user_id users caller]
    by (simp add: AdminUserDetailView_delete_def AdminUserDetailView_get_object_def
        IsAdminUser_has_permission_def)
  have other: "AdminUserDetailView_delete caller users tasks (user_id target)
             = (Inr (), filter (\<lambda>x. user_id x \<noteq> user_id target) users,
                    filter (\<lambda>t. owner t \<noteq> user_id target) tasks)"
    if "target \<in> set users" and "user_id target \<noteq> user_id caller"
    using assms that find_by_key [of user_id users target]
    by (simp add: AdminUserDetailView_delete_def AdminUserDetailView_get_object_def
        IsAdminUser_has_permission_def)
  have rest: "set (filter (\<lambda>x. user_id x \<noteq> user_id target) users) = set users - {target}"
    if "target \<in> set users"
    using assms(2) that by (auto simp: distinct_map inj_on_def)
  from self other rest show ?thesis by auto
qed

theorem admin_cannot_delete_self_witness:
  "role root = ''admin'' \<and> distinct (map user_id [root, bob, alice])
   \<and> AdminUserDetailView_delete root [root, bob, alice] example_tasks 3
       = (Inl (BadRequest ''You cannot delete your own account'' []), [root, bob, alice], example_tasks)
   \<and> fst (AdminUserDetailView_delete root [root, bob, alice] example_tasks 2) = Inr ()
   \<and> set (fst (snd (AdminUserDetailView_delete root [root, bob, alice] example_tasks 2)))
       = set [root, bob, alice] - {bob}"
proof -
  have a: "role root = ''admin''" by (simp add: root_def)
  have d: "distinct (map user_id [root, bob, alice])" by (simp add: root_def bob_def alice_def)
  have i: "user_id root = 3" "user_id bob = 2" by (simp_all add: root_def bob_def)
  have m: "root \<in> set [root, bob, alice]" "bob \<in> set [root, bob, alice]" by simp_all
  from admin_cannot_delete_self [OF a d, where target = bob and tasks = example_tasks] a d i m
  show ?thesis by auto
qed

lemma admin_is_valid_readonly:
  "AdminUserUpdateSerializer_is_valid fw (d(''id'' := a, ''email'' := b, ''username'' := c))
     = AdminUserUpdateSerializer_is_valid fw d"
  by (simp add: AdminUserUpdateSerializer_is_valid_def field_value_def)

lemma admin_update_frame:
  "user_id (AdminUserUpdateSerializer_update u vd) = user_id u
   \<and> email (AdminUserUpdateSerializer_update u vd) = email u
   \<and> username (AdminUserUpdateSerializer_update u vd) = username u
   \<and> password (AdminUserUpdateSerializer_update u vd) = password u"
  by (simp add: AdminUserUpdateSerializer_update_def)

lemma save_user_set:
  assumes "distinct (map user_id users)" and "u \<in> set users" and "user_id u' = user_id u"
  shows "set (save_user u' users) = insert u' (set users - {u})"
  using assms by (auto simp: save_user_def distinct_map inj_on_def)

lemma save_user_map:
  assumes "distinct (map user_id users)" and "u \<in> set users" and "user_id u' = user_id u"
    and "f u' = f u"
  shows "map f (save_user u' users) = map f users"
  using assms by (auto simp: save_user_def distinct_map inj_on_def)

text \<open>
  C10. In a user table with distinct keys, an administrator's update of a user, full
  or partial, does not read id, email or username from the request: whatever values
  the data hold for them, the outcome is the same. When the update succeeds, the
  updated row is the row with the requested key with its id, email, username and
  password unchanged; it replaces that row and every other row stays, so the id,
  email and username columns of the table are what they were.
\<close>

theorem admin_update_keeps_identity:
  assumes "distinct (map user_id users)"
  shows "AdminUserDetailView_update fw partial caller users pk
             (d(''id'' := a, ''email'' := b, ''username'' := c))
           = AdminUserDetailView_update fw partial caller users pk d
       \<and> (AdminUserDetailView_update fw partial caller users pk d = Inr (u', users') \<longrightarrow>
            (\<exists>u \<in> set users. user_id u = pk \<and> user_id u' = pk \<and> email u' = email u
                \<and> username u' = username u \<and> password u' = password u
                \<and> set users' = insert u' (set users - {u}))
            \<and> map user_id users' = map user_id users \<and> map email users' = map email users
            \<and> map username users' = map username users)"
proof -
  have ind: "AdminUserDetailView_update fw partial caller users pk
             (d(''id'' := a, ''email'' := b, ''username'' := c))
           = AdminUserDetailView_update fw partial caller users pk d"
    by (simp only: AdminUserDetailView_update_def admin_is_valid_readonly)
  have fr: "(\<exists>u \<in> set users. user_id u = pk \<and> user_id u' = pk \<and> email u' = email u
                \<and> username u' = username u \<and> password u' = password u
                \<and> set users' = insert u' (set users - {u}))
            \<and> map user_id users' = map user_id users \<and> map email users' = map email users
            \<and> map username users' = map username users"
    if ok: "AdminUserDetailView_update fw partial caller users pk d = Inr (u', users')"
  proof -
    from ok obtain u vd where g: "AdminUserDetailView_get_object caller users pk = Inr u"
      and u': "u' = AdminUserUpdateSerializer_update u vd" and s: "users' = save_user u' users"
      by (auto simp: AdminUserDetailView_update_def Let_def split: sum.splits)
    from g have f: "find (\<lambda>x. user_id x = pk) users = Some u"
      by (auto simp: AdminUserDetailView_get_object_def split: if_splits option.splits)
    then have m: "u \<in> set users" "user_id u = pk"
      using find_Some_key [of user_id pk users u] by simp_all
    have k: "user_id u' = user_id u" "email u' = email u" "username u' = username u"
      "password u' = password u"
      using u' admin_update_frame [of u vd] by simp_all
    note sm = save_user_map [OF assms m(1) k(1)]
    have "map user_id users' = map user_id users" "map email users' = map email users"
      "map username users' = map username users"
      using s sm [of user_id] sm [of email] sm [of username] k by simp_all
    then show ?thesis
      using m k s save_user_set [OF assms m(1) k(1)] by auto
  qed
  from ind fr show ?thesis by blast
qed

theorem admin_update_keeps_identity_witness:
  "distinct (map user_id [root, bob, alice])
   \<and> bob_update ''email'' = Some ''mallory@example.com''
   \<and> bob_update ''username'' = Some ''mallory''
   \<and> AdminUserDetailView_put example_framework root [root, bob, alice] 2 bob_update
       = Inr (bob_updated, [root, bob_updated, alice])
   \<and> AdminUserDetailView_patch example_framework root [root, bob, alice] 2 bob_update
       = Inr (bob_updated, [root, bob_updated, alice])
   \<and> user_id bob_updated = 2 \<and> email bob_updated = email bob \<and> username bob_updated = username bob
   \<and> map email [root, bob_updated, alice] = map email [root, bob, alice]"
proof -
  have d: "distinct (map user_id [root, bob, alice])" by (simp add: root_def bob_def alice_def)
  have put: "AdminUserDetailView_put example_framework root [root, bob, alice] 2 bob_update
       = Inr (bob_updated, [root, bob_updated, alice])"
    by code_simp
  have patch: "AdminUserDetailView_patch example_framework root [root, bob, alice] 2 bob_update
       = Inr (bob_updated, [root, bob_updated, alice])"
    by code_simp
  have p: "bob_update ''email'' = Some ''mallory@example.com''"
    "bob_update ''username'' = Some ''mallory''"
    by (simp_all add: bob_update_def)
  have u: "AdminUserDetailView_update example_framework False root [root, bob, alice] 2 bob_update
       = Inr (bob_updated, [root, bob_updated, alice])"
    using put by (simp add: AdminUserDetailView_put_def)
  have b: "user_id bob_updated = 2" "email bob_updated = email bob"
    "username bob_updated = username bob"
    by (simp_all add: bob_updated_def bob_def)
  from admin_update_keeps_identity [OF d, where fw = example_framework and partial = False
      and caller = root and pk = 2 and d = bob_update and u' = bob_updated
      and users' = "[root, bob_updated, alice]"] u
  have "map email [root, bob_updated, alice] = map email [root, bob, alice]" by blast
  with d put patch p b show ?thesis by blast
qed

section \<open>Task ownership on create and update\<close>

lemma fold_max_ge: "a \<le> fold max ids a \<and> (\<forall>i \<in> set ids. i \<le> fold max ids (a::nat))"
proof (induction ids arbitrary: a)
  case Nil
  then show ?case by simp
next
  case (Cons x xs)
  from Cons [of "max x a"] show ?case by (auto simp: max_def split: if_splits)
qed

lemma fresh_id_new: "fresh_id ids \<notin> set ids"
  using fold_max_ge [of 0 ids] by (auto simp: fresh_id_def)

lemma task_is_valid_readonly:
  "TaskSerializer_is_valid fw partial instance (d(''owner'' := x))
     = TaskSerializer_is_valid fw partial instance d"
  by (simp add: TaskSerializer_is_valid_def field_value_def)

lemma task_create_is_valid_readonly:
  "TaskCreateSerializer_is_valid fw (d(''owner'' := x)) = TaskCreateSerializer_is_valid fw d"
  by (simp add: TaskCreateSerializer_is_valid_def field_value_def)

lemma task_update_frame:
  "task_id (TaskSerializer_update t vd) = task_id t \<and> owner (TaskSerializer_update t vd) = owner t"
  by (simp add: TaskSerializer_update_def)

lemma save_task_set:
  assumes "distinct (map task_id tasks)" and "t \<in> set tasks" and "task_id t' = task_id t"
  shows "set (save_task t' tasks) = insert t' (set tasks - {t})"
  using assms by (auto simp: save_task_def distinct_map inj_on_def)

lemma save_task_map:
  assumes "distinct (map task_id tasks)" and "t \<in> set tasks" and "task_id t' = task_id t"
    and "f t' = f t"
  shows "map f (save_task t' tasks) = map f tasks"
  using assms by (auto simp: save_task_def distinct_map inj_on_def)

lemma get_object_Inr:
  "TaskDetailView_get_object caller tasks pk = Inr t
     \<Longrightarrow> t \<in> set tasks \<and> task_id t = pk \<and> visible_to caller t"
  using find_Some_key [of task_id pk "filter (visible_to caller) tasks" t]
  by (auto simp: TaskDetailView_get_object_def TaskDetailView_get_queryset_def role_queryset
      split: option.splits if_splits)

text \<open>
  C4. In a task table with distinct keys, an update of a task, full or partial, does
  not read an owner from the request: whatever owner value the data hold, the outcome
  is the same. When the update succeeds, the updated row is the row with the requested
  key with the owner it had; it replaces that row and every other row stays, so the
  owner column of the table is what it was. Creation does not read an owner from the
  request either: the created task, which gets a key not yet in use, is owned by the
  caller.
\<close>

theorem task_owner_immutable:
  assumes "distinct (map task_id tasks)"
  shows "TaskDetailView_update fw partial caller tasks pk (d(''owner'' := x))
           = TaskDetailView_update fw partial caller tasks pk d
       \<and> (TaskDetailView_update fw partial caller tasks pk d = Inr (t', tasks') \<longrightarrow>
            (\<exists>t \<in> set tasks. task_id t = pk \<and> task_id t' = pk \<and> owner t' = owner t
                \<and> set tasks' = insert t' (set tasks - {t}))
            \<and> map task_id tasks' = map task_id tasks \<and> map owner tasks' = map owner tasks)
       \<and> TaskListCreateView_post fw caller tasks (d(''owner'' := x))
           = TaskListCreateView_post fw caller tasks d
       \<and> (TaskListCreateView_post fw caller tasks d = Inr (t', tasks') \<longrightarrow>
            owner t' = user_id caller \<and> tasks' = t' # tasks
            \<and> task_id t' \<notin> set (map task_id tasks))"
proof -
  have ind: "TaskDetailView_update fw partial caller tasks pk (d(''owner'' := x))
           = TaskDetailView_update fw partial caller tasks pk d"
    by (simp only: TaskDetailView_update_def task_is_valid_readonly)
  have fr: "(\<exists>t \<in> set tasks. task_id t = pk \<and> task_id t' = pk \<and> owner t' = owner t
                \<and> set tasks' = insert t' (set tasks - {t}))
            \<and> map task_id tasks' = map task_id tasks \<and> map owner tasks' = map owner tasks"
    if ok: "TaskDetailView_update fw partial caller tasks pk d = Inr (t', tasks')"
  proof -
    from ok obtain t vd where g: "TaskDetailView_get_object caller tasks pk = Inr t"
      and t': "t' = TaskSerializer_update t vd" and s: "tasks' = save_task t' tasks"
      by (auto simp: TaskDetailView_update_def Let_def split: sum.splits)
    from g have m: "t \<in> set tasks" "task_id t = pk" using get_object_Inr by simp_all
    have k: "task_id t' = task_id t" "owner t' = owner t"
      using t' task_update_frame [of t vd] by simp_all
    note sm = save_task_map [OF assms m(1) k(1)]
    have "map task_id tasks' = map task_id tasks" "map owner tasks' = map owner tasks"
      using s sm [of task_id] sm [of owner] k by simp_all
    then show ?thesis
      using m k s save_task_set [OF assms m(1) k(1)] by auto
  qed
  have cind: "TaskListCreateView_post fw caller tasks (d(''owner'' := x))
           = TaskListCreateView_post fw caller tasks d"
    by (simp only: TaskListCreateView_post_def task_create_is_valid_readonly)
  have cr: "owner t' = user_id caller \<and> tasks' = t' # tasks
            \<and> task_id t' \<notin> set (map task_id tasks)"
    if ok: "TaskListCreateView_post fw caller tasks d = Inr (t', tasks')"
    using ok fresh_id_new [of "map task_id tasks"]
    by (auto simp: TaskListCreateView_post_def TaskCreateSerializer_create_def Let_def
        split: sum.splits)
  from ind fr cind cr show ?thesis by blast
qed

theorem task_owner_immutable_witness:
  "distinct (map task_id example_tasks)
   \<and> task6_update ''owner'' = Some ''2''
   \<and> TaskDetailView_patch example_framework alice example_tasks 6 task6_update
       = Inr (task6_updated, task6_updated # tl example_tasks)
   \<and> owner task6_updated = user_id alice
   \<and> map owner (task6_updated # tl example_tasks) = map owner example_tasks
   \<and> task7_create ''owner'' = Some ''1''
   \<and> TaskListCreateView_post example_framework bob example_tasks task7_create
       = Inr (example_task 7 ''File taxes'' ''pending'' 2,
              example_task 7 ''File taxes'' ''pending'' 2 # example_tasks)
   \<and> owner (example_task 7 ''File taxes'' ''pending'' 2) = user_id bob"
proof -
  have patch: "TaskDetailView_patch example_framework alice example_tasks 6 task6_update
       = Inr (task6_updated, task6_updated # tl example_tasks)"
    by code_simp
  have post: "TaskListCreateView_post example_framework bob example_tasks task7_create
       = Inr (example_task 7 ''File taxes'' ''pending'' 2,
              example_task 7 ''File taxes'' ''pending'' 2 # example_tasks)"
    by code_simp
  have u: "TaskDetailView_update example_framework True alice example_tasks 6 task6_update
       = Inr (task6_updated, task6_updated # tl example_tasks)"
    using patch by (simp add: TaskDetailView_patch_def)
  have p: "task6_update ''owner'' = Some ''2''" "task7_create ''owner'' = Some ''1''"
    by (simp_all add: task6_update_def task7_create_def)
  have o: "owner task6_updated = user_id alice"
    by (simp add: task6_updated_def example_task_def alice_def)
  from task_owner_immutable [OF example_tasks_distinct, where fw = example_framework
      and partial = True and caller = alice and pk = 6 and d = task6_update
      and t' = task6_updated and tasks' = "task6_updated # tl example_tasks"] u
  have m: "map owner (task6_updated # tl example_tasks) = map owner example_tasks" by blast
  from task_owner_immutable [OF example_tasks_distinct, where fw = example_framework
      and caller = bob and d = task7_create and t' = "example_task 7 ''File taxes'' ''pending'' 2"
      and tasks' = "example_task 7 ''File taxes'' ''pending'' 2 # example_tasks"] post
  have c: "owner (example_task 7 ''File taxes'' ''pending'' 2) = user_id bob" by blast
  from example_tasks_distinct patch post p o m c show ?thesis by blast
qed

section \<open>Visibility of tasks\<close>

lemma get_object_hidden:
  assumes "distinct (map task_id tasks)" and "t \<in> set tasks" and "\<not> visible_to caller t"
  shows "TaskDetailView_get_object caller tasks (task_id t) = Inl NotFound"
proof -
  have "x = t" if "x \<in> set tasks" and "task_id x = task_id t" for x
    using assms(1,2) that by (auto simp: distinct_map inj_on_def)
  then have "find (\<lambda>x. task_id x = task_id t) (filter (visible_to caller) tasks) = None"
    using assms(3) by (auto simp: find_None_iff)
  then show ?thesis
    by (simp add: TaskDetailView_get_object_def TaskDetailView_get_queryset_def role_queryset)
qed

lemma get_object_visible:
  assumes "distinct (map task_id tasks)" and "t \<in> set tasks" and "visible_to caller t"
  shows "TaskDetailView_get_object caller tasks (task_id t) = Inr t"
proof -
  have d: "distinct (map task_id (filter (visible_to caller) tasks))"
    using assms(1) by (rule distinct_map_filter)
  have "t \<in> set (filter (visible_to caller) tasks)" using assms by simp
  with d have "find (\<lambda>x. task_id x = task_id t) (filter (visible_to caller) tasks) = Some t"
    by (rule find_by_key)
  then show ?thesis using assms(3)
    by (auto simp: TaskDetailView_get_object_def TaskDetailView_get_queryset_def role_queryset
        IsOwnerOrAdmin_has_object_permission_def visible_to_def)
qed

lemma list_queryset_filter:
  "TaskListCreateView_get_queryset caller q tasks =
     filter (\<lambda>t. visible_to caller t
        \<and> (case q ''status'' of None \<Rightarrow> True | Some s \<Rightarrow> s = [] \<or> status t = s)
        \<and> (case q ''priority'' of None \<Rightarrow> True | Some p \<Rightarrow> p = [] \<or> priority t = p)
        \<and> (case q ''search'' of None \<Rightarrow> True
            | Some s \<Rightarrow> icontains (title t) s
                \<or> (\<exists>dsc. description t = Some dsc \<and> icontains dsc s))) tasks"
proof -
  have e: "icontains x []" for x by (simp add: icontains_def lower_def)
  have m: "search_match s t
             = (icontains (title t) s \<or> (\<exists>dsc. description t = Some dsc \<and> icontains dsc s))"
    for s t
    by (auto simp: search_match_def split: option.splits)
  show ?thesis
    unfolding TaskListCreateView_get_queryset_def Let_def role_queryset
    by (cases "q ''status''"; cases "q ''priority''"; cases "q ''search''")
       (auto simp: truthy_def or_empty_def e m intro!: filter_cong)
qed

text \<open>
  C3, as the code has it. In a task table with distinct keys, for a caller who is not
  an administrator and a task of the table owned by someone else: the task is in no
  listing the caller can get, and retrieving, updating (fully or partially) and
  deleting it all answer 404 Not Found, because the detail view looks the key up among
  the caller's own tasks before any object permission is consulted; the object
  permission itself refuses the pair. For an administrator the listing without filters
  is the whole table, the object permission allows every task, and every task of the
  table can be retrieved.
\<close>

theorem foreign_task_not_found:
  assumes "distinct (map task_id tasks)" and "t \<in> set tasks"
  shows "(role caller \<noteq> ''admin'' \<and> owner t \<noteq> user_id caller \<longrightarrow>
            t \<notin> set (TaskListCreateView_get_queryset caller q tasks)
          \<and> TaskDetailView_get caller tasks (task_id t) = Inl NotFound
          \<and> TaskDetailView_update fw partial caller tasks (task_id t) d = Inl NotFound
          \<and> TaskDetailView_delete caller tasks (task_id t) = Inl NotFound
          \<and> \<not> IsOwnerOrAdmin_has_object_permission caller t)
       \<and> (role caller = ''admin'' \<longrightarrow>
            TaskListCreateView_get_queryset caller Map.empty tasks = tasks
          \<and> IsOwnerOrAdmin_has_object_permission caller t
          \<and> TaskDetailView_get caller tasks (task_id t) = Inr t)"
proof -
  have hidden: "\<not> visible_to caller t" if "role caller \<noteq> ''admin''" and "owner t \<noteq> user_id caller"
    using that by (simp add: visible_to_def)
  have a: "t \<notin> set (TaskListCreateView_get_queryset caller q tasks)" if "\<not> visible_to caller t"
    using that by (simp add: list_queryset_filter)
  have b: "TaskDetailView_get_object caller tasks (task_id t) = Inl NotFound"
    if "\<not> visible_to caller t"
    using assms that by (rule get_object_hidden)
  have c: "\<not> IsOwnerOrAdmin_has_object_permission caller t" if "\<not> visible_to caller t"
    using that by (auto simp: IsOwnerOrAdmin_has_object_permission_def visible_to_def)
  have adm: "TaskListCreateView_get_queryset caller Map.empty tasks = tasks
          \<and> IsOwnerOrAdmin_has_object_permission caller t
          \<and> TaskDetailView_get caller tasks (task_id t) = Inr t" if r: "role caller = ''admin''"
  proof -
    have v: "visible_to caller x" for x using r by (simp add: visible_to_def)
    have "TaskDetailView_get_object caller tasks (task_id t) = Inr t"
      using assms v by (rule get_object_visible)
    then show ?thesis using r v
      by (simp add: list_queryset_filter TaskDetailView_get_def
          IsOwnerOrAdmin_has_object_permission_def)
  qed
  from hidden a b c adm show ?thesis
    by (auto simp: TaskDetailView_get_def TaskDetailView_update_def TaskDetailView_delete_def)
qed

theorem foreign_task_not_found_witness:
  "distinct (map task_id example_tasks)
   \<and> example_task 6 ''Write report'' ''pending'' 1 \<in> set example_tasks
   \<and> role bob \<noteq> ''admin'' \<and> owner (example_task 6 ''Write report'' ''pending'' 1) \<noteq> user_id bob
   \<and> TaskDetailView_get bob example_tasks 6 = Inl NotFound
   \<and> TaskDetailView_patch example_framework bob example_tasks 6 task6_update = Inl NotFound
   \<and> TaskDetailView_delete bob example_tasks 6 = Inl NotFound
   \<and> role root = ''admin''
   \<and> TaskDetailView_get root example_tasks 6 = Inr (example_task 6 ''Write report'' ''pending'' 1)"
proof -
  have m: "example_task 6 ''Write report'' ''pending'' 1 \<in> set example_tasks"
    by (simp add: example_tasks_def)
  have k: "task_id (example_task 6 ''Write report'' ''pending'' 1) = 6"
    by (simp add: example_task_def)
  have b: "role bob \<noteq> ''admin''" "owner (example_task 6 ''Write report'' ''pending'' 1) \<noteq> user_id bob"
    by (simp_all add: bob_def example_task_def)
  have r: "role root = ''admin''" by (simp add: root_def)
  from foreign_task_not_found [OF example_tasks_distinct m, where caller = bob
      and fw = example_framework and partial = True and d = task6_update] b k
  have 1: "TaskDetailView_get bob example_tasks 6 = Inl NotFound"
    "TaskDetailView_patch example_framework bob example_tasks 6 task6_update = Inl NotFound"
    "TaskDetailView_delete bob example_tasks 6 = Inl NotFound"
    by (simp_all add: TaskDetailView_patch_def)
  from foreign_task_not_found [OF example_tasks_distinct m, where caller = root] r k
  have 2: "TaskDetailView_get root example_tasks 6
             = Inr (example_task 6 ''Write report'' ''pending'' 1)"
    by simp
  from example_tasks_distinct m b r 1 2 show ?thesis by blast
qed

text \<open>
  The claim C3 expects an authorization error (403) where the code answers 404: a
  user who is not an administrator asks for a task of another user.
\<close>

theorem foreign_task_counterexample:
  "role bob \<noteq> ''admin''
   \<and> TaskDetailView_get alice example_tasks 6 = Inr (example_task 6 ''Write report'' ''pending'' 1)
   \<and> owner (example_task 6 ''Write report'' ''pending'' 1) \<noteq> user_id bob
   \<and> TaskDetailView_get bob example_tasks 6 = Inl NotFound
   \<and> TaskDetailView_get bob example_tasks 6
        \<noteq> Inl (PermissionDenied ''You do not have permission to access this resource.'')
   \<and> TaskDetailView_delete bob example_tasks 6 = Inl NotFound
   \<and> TaskDetailView_put example_framework bob example_tasks 6 task6_update = Inl NotFound"
proof -
  have "TaskDetailView_get alice example_tasks 6
          = Inr (example_task 6 ''Write report'' ''pending'' 1)"
    by code_simp
  moreover have "TaskDetailView_get bob example_tasks 6 = Inl NotFound"
    by code_simp
  moreover have "TaskDetailView_delete bob example_tasks 6 = Inl NotFound"
    by code_simp
  moreover have "TaskDetailView_put example_framework bob example_tasks 6 task6_update = Inl NotFound"
    by code_simp
  moreover have "role bob \<noteq> ''admin''"
    "owner (example_task 6 ''Write report'' ''pending'' 1) \<noteq> user_id bob"
    by (simp_all add: bob_def example_task_def)
  ultimately show ?thesis by simp
qed

section \<open>Listing tasks with filters\<close>

text \<open>
  C5, as the code has it. The listing is exactly the tasks visible to the caller (all
  tasks for an administrator, the caller's own otherwise) that pass every filter, in
  the table's order. A status or priority parameter that is absent or empty passes
  every task; otherwise the task's value must equal it. A search parameter, when
  given, must occur in the title or in the description, compared in lower case as a
  contiguous substring; an empty one occurs in every title.
\<close>

theorem list_tasks_filters:
  "TaskListCreateView_get_queryset caller q tasks =
     filter (\<lambda>t. visible_to caller t
        \<and> (case q ''status'' of None \<Rightarrow> True | Some s \<Rightarrow> s = [] \<or> status t = s)
        \<and> (case q ''priority'' of None \<Rightarrow> True | Some p \<Rightarrow> p = [] \<or> priority t = p)
        \<and> (case q ''search'' of None \<Rightarrow> True
            | Some s \<Rightarrow> icontains (title t) s
                \<or> (\<exists>dsc. description t = Some dsc \<and> icontains dsc s))) tasks
   \<and> icontains x s = (\<exists>before after. lower x = before @ lower s @ after)"
  using list_queryset_filter [of caller q tasks] by (simp add: icontains_def sublist_def)

theorem list_tasks_filters_witness:
  "TaskListCreateView_get_queryset root paper_query example_tasks
     = [example_task 1 ''Order paper'' ''pending'' 1]
   \<and> TaskListCreateView_get_queryset root (map_of [(''search'', ''PAPER'')]) example_tasks
     = [(example_task 5 ''Book venue'' ''in_progress'' 2)\<lparr>description := Some ''Paper invitations''\<rparr>,
        example_task 1 ''Order paper'' ''pending'' 1]
   \<and> TaskListCreateView_get_queryset bob (map_of [(''search'', ''PAPER'')]) example_tasks
     = [(example_task 5 ''Book venue'' ''in_progress'' 2)\<lparr>description := Some ''Paper invitations''\<rparr>]
   \<and> icontains ''Order paper'' ''PAPER''"
proof -
  have 1: "TaskListCreateView_get_queryset root paper_query example_tasks
     = [example_task 1 ''Order paper'' ''pending'' 1]"
    by code_simp
  have 2: "TaskListCreateView_get_queryset root (map_of [(''search'', ''PAPER'')]) example_tasks
     = [(example_task 5 ''Book venue'' ''in_progress'' 2)\<lparr>description := Some ''Paper invitations''\<rparr>,
        example_task 1 ''Order paper'' ''pending'' 1]"
    by code_simp
  have 3: "TaskListCreateView_get_queryset bob (map_of [(''search'', ''PAPER'')]) example_tasks
     = [(example_task 5 ''Book venue'' ''in_progress'' 2)\<lparr>description := Some ''Paper invitations''\<rparr>]"
    by code_simp
  have l: "lower ''Order paper'' = ''order '' @ lower ''PAPER'' @ []"
    by code_simp
  from list_tasks_filters [of root paper_query example_tasks "''Order paper''" "''PAPER''"] l
  have "icontains ''Order paper'' ''PAPER''" by blast
  with 1 2 3 show ?thesis by simp
qed

text \<open>
  The claim C5 has every supplied status filter match exactly. A request that supplies
  an empty status gets every task of the caller, none of which has the empty status.
\<close>

theorem empty_filter_counterexample:
  "empty_status_query ''status'' = Some []
   \<and> TaskListCreateView_get_queryset alice empty_status_query example_tasks
       = [example_task 6 ''Write report'' ''pending'' 1, example_task 4 ''Call plumber'' ''pending'' 1,
          example_task 3 ''Pay invoice'' ''completed'' 1, example_task 1 ''Order paper'' ''pending'' 1]
   \<and> status (example_task 6 ''Write report'' ''pending'' 1) \<noteq> []"
proof -
  have "TaskListCreateView_get_queryset alice empty_status_query example_tasks
       = [example_task 6 ''Write report'' ''pending'' 1, example_task 4 ''Call plumber'' ''pending'' 1,
          example_task 3 ''Pay invoice'' ''completed'' 1, example_task 1 ''Order paper'' ''pending'' 1]"
    by code_simp
  then show ?thesis by (simp add: empty_status_query_def example_task_def)
qed

section \<open>Logout\<close>

text \<open>
  C9, as the code has it. Logout always answers with one of three responses. Without a
  refresh token, or with an empty one, it answers 400 \<open>Refresh token is required\<close>; with
  a token that does not decode, or whose identifier is already blacklisted, it answers
  400 \<open>Invalid token\<close>; in both cases the blacklist stays as it was. With a token that
  decodes and is not blacklisted it blacklists the token's identifier and reports
  success, and a second logout with the same token then answers 400 \<open>Invalid token\<close>.
\<close>

theorem logout_responses:
  "((d ''refresh'' = None \<or> d ''refresh'' = Some []) \<longrightarrow>
       LogoutView_post fw bl d = (Inl (BadRequest ''Refresh token is required'' []), bl))
   \<and> (d ''refresh'' = Some raw \<and> raw \<noteq> [] \<and> decode_token fw raw = None \<longrightarrow>
       LogoutView_post fw bl d = (Inl (BadRequest ''Invalid token'' []), bl))
   \<and> (d ''refresh'' = Some raw \<and> raw \<noteq> [] \<and> decode_token fw raw = Some jti \<and> jti \<in> set bl \<longrightarrow>
       LogoutView_post fw bl d = (Inl (BadRequest ''Invalid token'' []), bl))
   \<and> (d ''refresh'' = Some raw \<and> raw \<noteq> [] \<and> decode_token fw raw = Some jti \<and> jti \<notin> set bl \<longrightarrow>
       LogoutView_post fw bl d = (Inr ''Successfully logged out'', jti # bl)
       \<and> LogoutView_post fw (jti # bl) d = (Inl (BadRequest ''Invalid token'' []), jti # bl))
   \<and> fst (LogoutView_post fw bl d) \<in>
        {Inl (BadRequest ''Refresh token is required'' []), Inl (BadRequest ''Invalid token'' []),
         Inr ''Successfully logged out''}"
  by (auto simp: LogoutView_post_def RefreshToken_def token_blacklist_def truthy_def or_empty_def
      Let_def split: option.splits)

theorem logout_responses_witness:
  "logout_request ''refresh'' = Some ''refresh-1''
   \<and> decode_token example_framework ''refresh-1'' = Some 1
   \<and> LogoutView_post example_framework [2] logout_request = (Inr ''Successfully logged out'', [1, 2])
   \<and> LogoutView_post example_framework [1, 2] logout_request
        = (Inl (BadRequest ''Invalid token'' []), [1, 2])
   \<and> LogoutView_post example_framework [2] Map.empty
        = (Inl (BadRequest ''Refresh token is required'' []), [2])"
proof -
  have r: "logout_request ''refresh'' = Some ''refresh-1''"
    by (simp add: logout_request_def)
  have k: "decode_token example_framework ''refresh-1'' = Some 1"
    by (simp add: example_framework_def)
  have n: "(1::nat) \<notin> set [2]" "''refresh-1'' \<noteq> []" by simp_all
  from logout_responses [of logout_request example_framework "[2]" "''refresh-1''" 1] r k n
  have 1: "LogoutView_post example_framework [2] logout_request = (Inr ''Successfully logged out'', [1, 2])"
    "LogoutView_post example_framework [1, 2] logout_request
        = (Inl (BadRequest ''Invalid token'' []), [1, 2])"
    by simp_all
  from logout_responses [of Map.empty example_framework "[2]"]
  have 2: "LogoutView_post example_framework [2] Map.empty
        = (Inl (BadRequest ''Refresh token is required'' []), [2])"
    by simp
  from r k 1 2 show ?thesis by blast
qed

text \<open>
  The claim C9 has a second logout with the same, by then blacklisted, token report
  success. The first logout succeeds; the second answers 400 \<open>Invalid token\<close>.
\<close>

theorem logout_twice_counterexample:
  "LogoutView_post example_framework [] logout_request = (Inr ''Successfully logged out'', [1])
   \<and> LogoutView_post example_framework [1] logout_request
        = (Inl (BadRequest ''Invalid token'' []), [1])"
  by code_simp

section \<open>Status transitions\<close>










section \<open>Registration: uniqueness and normalisation\<close>

lemma lower_char_idem: "lower_char (lower_char c) = lower_char c"
  by (auto simp: lower_char_def Let_def)

lemma lower_idem: "lower (lower s) = lower s"
  by (simp add: lower_def lower_char_idem)

lemma char_field_cases:
  "char_field allow_blank validators hook raw =
     (if strip raw = [] then (if allow_blank then hook [] else Inl [''This field may not be blank.''])
      else if validators (strip raw) = [] then hook (strip raw) else Inl (validators (strip raw)))"
  by (simp add: char_field_def run_field_def Let_def split: list.splits)

lemma email_field_ok:
  assumes "char_field False (\<lambda>v. field_validators fw ''email'' v @ unique_validator (map email users) v)
             (validate_email users) e = Inr v"
  shows "v = lower (strip e) \<and> lower (strip e) \<notin> set (map email users)"
  using assms by (auto simp: char_field_cases validate_email_def split: if_splits)

lemma username_field_ok:
  assumes "char_field False (\<lambda>v. field_validators fw ''username'' v @ unique_validator (map username users) v)
             (validate_username users) n = Inr v"
  shows "v = lower (strip n) \<and> lower (strip n) \<notin> set (map username users)"
  using assms by (auto simp: char_field_cases validate_username_def split: if_splits)

lemma email_field_conflict:
  assumes "lower (strip e) \<in> set (map email users)"
  shows "\<exists>m. char_field False (\<lambda>v. field_validators fw ''email'' v @ unique_validator (map email users) v)
               (validate_email users) e = Inl m"
  using assms by (simp add: char_field_cases validate_email_def)

lemma username_field_conflict:
  assumes "lower (strip n) \<in> set (map username users)"
  shows "\<exists>m. char_field False (\<lambda>v. field_validators fw ''username'' v @ unique_validator (map username users) v)
               (validate_username users) n = Inl m"
  using assms by (simp add: char_field_cases validate_username_def)

lemma field_value_required_Inr:
  assumes "field_error name (field_value True d name run) = []"
  shows "\<exists>raw v. d name = Some raw \<and> run raw = Inr v
           \<and> field_valid (field_value True d name run) = Some v"
  using assms
  by (auto simp: field_value_def field_error_def field_valid_def split: option.splits sum.splits)

lemma field_error_Some_Inl: "field_error name (Some (Inl m)) = [(name, m)]"
  by (simp add: field_error_def)

lemma validate_Inr: "validate attrs = Inr vd \<Longrightarrow> vd = attrs"
  by (simp add: validate_def split: if_splits)

lemma is_valid_Inr:
  assumes "UserRegistrationSerializer_is_valid fw users d = Inr vd"
  shows "\<exists>e n. d ''email'' = Some e \<and> d ''username'' = Some n
           \<and> vd_email vd = Some (lower (strip e)) \<and> vd_username vd = Some (lower (strip n))
           \<and> lower (strip e) \<notin> set (map email users) \<and> lower (strip n) \<notin> set (map username users)"
proof -
  define re where "re = field_value True d ''email''
     (char_field False (\<lambda>v. field_validators fw ''email'' v @ unique_validator (map email users) v)
        (validate_email users))"
  define rn where "rn = field_value True d ''username''
     (char_field False (\<lambda>v. field_validators fw ''username'' v @ unique_validator (map username users) v)
        (validate_username users))"
  define rp where "rp = field_value True d ''password''
     (char_field False (field_validators fw ''password'') (validate_password fw))"
  define rc where "rc = field_value True d ''password_confirm''
     (char_field False (field_validators fw ''password_confirm'') Inr)"
  define rf where "rf = field_value False d ''first_name''
     (char_field True (field_validators fw ''first_name'') Inr)"
  define rl where "rl = field_value False d ''last_name''
     (char_field True (field_validators fw ''last_name'') Inr)"
  define errs where "errs = field_error ''email'' re @ field_error ''username'' rn
            @ field_error ''password'' rp @ field_error ''password_confirm'' rc
            @ field_error ''first_name'' rf @ field_error ''last_name'' rl"
  define attrs where "attrs = \<lparr>vd_email = field_valid re, vd_username = field_valid rn,
                  vd_password = field_valid rp, vd_password_confirm = field_valid rc,
                  vd_first_name = field_valid rf, vd_last_name = field_valid rl\<rparr>"
  have unf: "UserRegistrationSerializer_is_valid fw users d
               = (if errs = [] then validate attrs else Inl errs)"
    unfolding UserRegistrationSerializer_is_valid_def Let_def errs_def attrs_def
      re_def rn_def rp_def rc_def rf_def rl_def
    by (rule refl)
  from assms unf have e0: "errs = []" and v: "validate attrs = Inr vd"
    by (simp_all split: if_splits)
  from v have vd: "vd = attrs" by (rule validate_Inr)
  from e0 have ee: "field_error ''email'' re = []" and en: "field_error ''username'' rn = []"
    by (simp_all add: errs_def)
  from field_value_required_Inr [OF ee [unfolded re_def]]
  obtain e ve where e: "d ''email'' = Some e"
    and re: "char_field False (\<lambda>v. field_validators fw ''email'' v @ unique_validator (map email users) v)
               (validate_email users) e = Inr ve"
    and fe: "field_valid re = Some ve"
    unfolding re_def by blast
  from field_value_required_Inr [OF en [unfolded rn_def]]
  obtain n vn where n: "d ''username'' = Some n"
    and rn: "char_field False (\<lambda>v. field_validators fw ''username'' v @ unique_validator (map username users) v)
               (validate_username users) n = Inr vn"
    and fn: "field_valid rn = Some vn"
    unfolding rn_def by blast
  from email_field_ok [OF re] username_field_ok [OF rn] e n fe fn vd
  show ?thesis by (simp add: attrs_def)
qed

lemma is_valid_conflict:
  assumes "(d ''email'' = Some e \<and> lower (strip e) \<in> set (map email users))
         \<or> (d ''username'' = Some n \<and> lower (strip n) \<in> set (map username users))"
  shows "\<exists>errs. UserRegistrationSerializer_is_valid fw users d = Inl errs
     \<and> (d ''email'' = Some e \<and> lower (strip e) \<in> set (map email users)
          \<longrightarrow> ''email'' \<in> set (map fst errs))
     \<and> (d ''username'' = Some n \<and> lower (strip n) \<in> set (map username users)
          \<longrightarrow> ''username'' \<in> set (map fst errs))"
proof -
  define re where "re = field_value True d ''email''
     (char_field False (\<lambda>v. field_validators fw ''email'' v @ unique_validator (map email users) v)
        (validate_email users))"
  define rn where "rn = field_value True d ''username''
     (char_field False (\<lambda>v. field_validators fw ''username'' v @ unique_validator (map username users) v)
        (validate_username users))"
  define rp where "rp = field_value True d ''password''
     (char_field False (field_validators fw ''password'') (validate_password fw))"
  define rc where "rc = field_value True d ''password_confirm''
     (char_field False (field_validators fw ''password_confirm'') Inr)"
  define rf where "rf = field_value False d ''first_name''
     (char_field True (field_validators fw ''first_name'') Inr)"
  define rl where "rl = field_value False d ''last_name''
     (char_field True (field_validators fw ''last_name'') Inr)"
  define errs where "errs = field_error ''email'' re @ field_error ''username'' rn
            @ field_error ''password'' rp @ field_error ''password_confirm'' rc
            @ field_error ''first_name'' rf @ field_error ''last_name'' rl"
  define attrs where "attrs = \<lparr>vd_email = field_valid re, vd_username = field_valid rn,
                  vd_password = field_valid rp, vd_password_confirm = field_valid rc,
                  vd_first_name = field_valid rf, vd_last_name = field_valid rl\<rparr>"
  have unf: "UserRegistrationSerializer_is_valid fw users d
               = (if errs = [] then validate attrs else Inl errs)"
    unfolding UserRegistrationSerializer_is_valid_def Let_def errs_def attrs_def
      re_def rn_def rp_def rc_def rf_def rl_def
    by (rule refl)
  have em: "''email'' \<in> set (map fst errs)"
    if "d ''email'' = Some e" and "lower (strip e) \<in> set (map email users)"
  proof -
    from email_field_conflict [OF that(2), of fw] that(1) obtain m where "re = Some (Inl m)"
      by (auto simp: re_def field_value_def)
    then show ?thesis by (simp add: errs_def field_error_Some_Inl)
  qed
  have un: "''username'' \<in> set (map fst errs)"
    if "d ''username'' = Some n" and "lower (strip n) \<in> set (map username users)"
  proof -
    from username_field_conflict [OF that(2), of fw] that(1) obtain m where "rn = Some (Inl m)"
      by (auto simp: rn_def field_value_def)
    then show ?thesis by (simp add: errs_def field_error_Some_Inl)
  qed
  from assms em un have "errs \<noteq> []" by auto
  with unf em un show ?thesis by auto
qed

lemma create_no_integrity_error:
  assumes "UserRegistrationSerializer_is_valid fw users d = Inr vd"
  shows "\<exists>e n. d ''email'' = Some e \<and> d ''username'' = Some n
     \<and> lower (strip e) \<notin> set (map email users) \<and> lower (strip n) \<notin> set (map username users)
     \<and> UserRegistrationSerializer_create fw users vd =
         Inr \<lparr>user_id = fresh_id (map user_id users), email = lower (strip e), username = lower (strip n),
              password = make_password fw (or_empty (vd_password vd)),
              first_name = or_empty (vd_first_name vd), last_name = or_empty (vd_last_name vd),
              role = ''user'', is_active = True\<rparr>"
proof -
  from is_valid_Inr [OF assms] obtain e n where
    "d ''email'' = Some e" "d ''username'' = Some n" "vd_email vd = Some (lower (strip e))"
    "vd_username vd = Some (lower (strip n))" "lower (strip e) \<notin> set (map email users)"
    "lower (strip n) \<notin> set (map username users)" by blast
  then show ?thesis
    by (simp add: UserRegistrationSerializer_create_def Let_def or_empty_def)
qed

lemma registration_outcomes:
  "(d ''email'' = Some e \<and> lower (strip e) \<in> set (map email users) \<longrightarrow>
      (\<exists>errs. UserRegistrationView_post fw users d = Inl (BadRequest ''Registration failed'' errs)
         \<and> ''email'' \<in> set (map fst errs)))
   \<and> (d ''username'' = Some n \<and> lower (strip n) \<in> set (map username users) \<longrightarrow>
      (\<exists>errs. UserRegistrationView_post fw users d = Inl (BadRequest ''Registration failed'' errs)
         \<and> ''username'' \<in> set (map fst errs)))
   \<and> UserRegistrationView_post fw users d \<noteq> Inl IntegrityError
   \<and> (UserRegistrationView_post fw users d = Inr (u, users') \<longrightarrow>
        (\<exists>e n. d ''email'' = Some e \<and> d ''username'' = Some n
            \<and> email u = lower (strip e) \<and> username u = lower (strip n)
            \<and> lower (strip e) \<notin> set (map email users)
            \<and> lower (strip n) \<notin> set (map username users))
        \<and> users' = u # users)"
proof -
  have ce: "\<exists>errs. UserRegistrationView_post fw users d = Inl (BadRequest ''Registration failed'' errs)
              \<and> ''email'' \<in> set (map fst errs)"
    if "d ''email'' = Some e" and "lower (strip e) \<in> set (map email users)"
    using is_valid_conflict [of d e users n fw] that
    by (auto simp: UserRegistrationView_post_def)
  have cu: "\<exists>errs. UserRegistrationView_post fw users d = Inl (BadRequest ''Registration failed'' errs)
              \<and> ''username'' \<in> set (map fst errs)"
    if "d ''username'' = Some n" and "lower (strip n) \<in> set (map username users)"
    using is_valid_conflict [of d e users n fw] that
    by (auto simp: UserRegistrationView_post_def)
  have ni: "UserRegistrationView_post fw users d \<noteq> Inl IntegrityError"
  proof (cases "UserRegistrationSerializer_is_valid fw users d")
    case (Inl errs)
    then show ?thesis by (simp add: UserRegistrationView_post_def)
  next
    case (Inr vd)
    from create_no_integrity_error [OF Inr] Inr show ?thesis
      by (auto simp: UserRegistrationView_post_def)
  qed
  have ok: "(\<exists>e n. d ''email'' = Some e \<and> d ''username'' = Some n
            \<and> email u = lower (strip e) \<and> username u = lower (strip n)
            \<and> lower (strip e) \<notin> set (map email users)
            \<and> lower (strip n) \<notin> set (map username users))
        \<and> users' = u # users"
    if s: "UserRegistrationView_post fw users d = Inr (u, users')"
  proof -
    from s obtain vd where v: "UserRegistrationSerializer_is_valid fw users d = Inr vd"
      and c: "UserRegistrationSerializer_create fw users vd = Inr u" and l: "users' = u # users"
      by (auto simp: UserRegistrationView_post_def split: sum.splits)
    from create_no_integrity_error [OF v] c l show ?thesis by auto
  qed
  from ce cu ni ok show ?thesis by blast
qed

text \<open>
  C6. Registration lower-cases the email and the username it is given so that no two
  stored values differ only in case, and looks the lower-cased value up with an exact
  match. The look-up misses a stored value that is not in lower case, and the profile
  update stores a username as submitted: a user changes the username to \<open>Bob1\<close>, and the
  registration of \<open>bob1\<close>, a username already in the table up to case, is accepted and
  stored as a second row.
\<close>

theorem registration_case_duplicate:
  "UserProfileView_patch example_framework bob_before [bob_before, alice] [''username'' \<mapsto> ''Bob1'']
      = Inr (bob, [bob, alice])
   \<and> username bob = ''Bob1''
   \<and> bob1_registration ''username'' = Some ''bob1''
   \<and> lower (username bob) = lower ''bob1''
   \<and> UserRegistrationView_post example_framework [bob, alice] bob1_registration
        = Inr (robert, [robert, bob, alice])
   \<and> username robert = ''bob1''"
proof -
  have "UserProfileView_patch example_framework bob_before [bob_before, alice] [''username'' \<mapsto> ''Bob1'']
      = Inr (bob, [bob, alice])"
    by code_simp
  moreover have "UserRegistrationView_post example_framework [bob, alice] bob1_registration
        = Inr (robert, [robert, bob, alice])"
    by code_simp
  moreover have "lower (username bob) = lower ''bob1''"
    by code_simp
  moreover have "username bob = ''Bob1''" "username robert = ''bob1''"
    "bob1_registration ''username'' = Some ''bob1''"
    by (simp_all add: bob_def robert_def bob1_registration_def)
  ultimately show ?thesis by simp
qed

end
